theory Spec2Isabelle
  imports Main "HOL-Library.Sublist"
begin

section \<open>The evaluator of groq-js: \<^verbatim>\<open>src/evaluator/index.js\<close>\<close>

text \<open>
  The evaluator takes a parsed query (a tree of nodes tagged by \<^verbatim>\<open>node.type\<close>) and a
  scope, and returns a Value. The development below embeds \<^verbatim>\<open>execute\<close>, the table
  \<^verbatim>\<open>EXECUTORS\<close>, \<^verbatim>\<open>Scope\<close>, \<^verbatim>\<open>StaticSource\<close> and \<^verbatim>\<open>evaluate\<close>.
  A \<^verbatim>\<open>throw\<close> is the left summand of a sum type; a rejected promise and a synchronous
  throw are not told apart (every executor is awaited by its caller).
\<close>

subsection \<open>JavaScript data\<close>

text \<open>
  The data held by documents, literals and results. Numbers are restricted to integers
  (array indices and lengths); an object is the list of its own properties in insertion
  order, each key once (the language lists keys that look like array indices first; the
  model does not).
\<close>

datatype jsdata =
    JNull
  | JBool bool
  | JNum int
  | JStr string
  | JArr "jsdata list"
  | JObj "(string \<times> jsdata) list"

text \<open>\<^verbatim>\<open>obj.hasOwnProperty(name)\<close> and \<^verbatim>\<open>obj[name]\<close> on a plain object, in one: the value
  of the own property of that name, if there is one.\<close>

definition get_prop :: "(string \<times> jsdata) list \<Rightarrow> string \<Rightarrow> jsdata option" where
  "get_prop props name = map_of props name"

text \<open>\<^verbatim>\<open>obj[key] = v\<close>: an existing key keeps its place, a new key goes last.\<close>

fun set_prop :: "(string \<times> jsdata) list \<Rightarrow> string \<Rightarrow> jsdata \<Rightarrow> (string \<times> jsdata) list" where
  "set_prop [] k v = [(k, v)]"
| "set_prop ((k', v') # ps) k v = (if k' = k then (k, v) # ps else (k', v') # set_prop ps k v)"

text \<open>\<^verbatim>\<open>Object.assign(target, source)\<close>: every own property of the source is set on the
  target, in the source's order.\<close>

fun object_assign ::
  "(string \<times> jsdata) list \<Rightarrow> (string \<times> jsdata) list \<Rightarrow> (string \<times> jsdata) list" where
  "object_assign target [] = target"
| "object_assign target ((k, v) # src) = object_assign (set_prop target k v) src"

text \<open>
  \<^verbatim>\<open>array.slice(start, end)\<close> of the language: a negative bound counts from the end, both
  bounds are cut to the range from 0 to the length, and the elements from the first bound
  up to, not including, the second are copied.
\<close>

definition js_slice :: "'a list \<Rightarrow> int \<Rightarrow> int \<Rightarrow> 'a list" where
  "js_slice xs start end =
     (let len = int (length xs);
          k = (if start < 0 then max (len + start) 0 else min start len);
          final = (if end < 0 then max (len + end) 0 else min end len)
      in take (nat (final - k)) (drop (nat k) xs))"

subsection \<open>Errors\<close>

text \<open>
  The four \<^verbatim>\<open>throw new Error(...)\<close> of the evaluator's rules, the one of \<^verbatim>\<open>evaluate\<close>,
  the \<^verbatim>\<open>TypeError\<close> of the language for a method call or property read on \<^verbatim>\<open>null\<close>, and
  whatever an operator or function of the registries throws.
\<close>

datatype error =
    NoExecutor string
  | UnknownOperator string
  | UnknownFunction string
  | UnknownNodeType string
  | DocumentsNotArray
  | TypeError
  | RegistryError string

subsection \<open>Values\<close>

text \<open>
  Modelled from the spec: the module \<^verbatim>\<open>./value\<close> (\<^verbatim>\<open>StaticValue\<close>, \<^verbatim>\<open>StreamValue\<close>,
  \<^verbatim>\<open>NULL_VALUE\<close>, \<^verbatim>\<open>TRUE_VALUE\<close>, \<^verbatim>\<open>FALSE_VALUE\<close>) is required by the evaluator and is
  not part of it. A Value is either eager (\<^verbatim>\<open>new StaticValue(data)\<close>, whose field
  \<^verbatim>\<open>data\<close> the evaluator reads) or lazily streamed (\<^verbatim>\<open>new StreamValue(generator)\<close>, always
  of type array). A stream is modelled by what its generator produces when it is drained:
  the Values it yields, in order, and the error it throws at the end, if it throws.
  The model does not record that a stream can be drained only once: a Value that is read
  twice gives the same sequence twice.
  A variable of the evaluator that should hold a Value can also hold the \<^verbatim>\<open>null\<close> of the
  language (\<^verbatim>\<open>Slice\<close> returns it): that is \<open>BareNull\<close>, on which every method call is a
  \<^verbatim>\<open>TypeError\<close>.
\<close>

datatype val =
    StaticValue jsdata
  | StreamValue "val list" "error option"
  | BareNull

text \<open>Modelled from the spec: the three canonical Values of \<^verbatim>\<open>./value\<close>.\<close>

definition NULL_VALUE :: val where "NULL_VALUE = StaticValue JNull"
definition TRUE_VALUE :: val where "TRUE_VALUE = StaticValue (JBool True)"
definition FALSE_VALUE :: val where "FALSE_VALUE = StaticValue (JBool False)"

text \<open>Modelled from the spec: the type tags \<^verbatim>\<open>'null'\<close>, \<^verbatim>\<open>'boolean'\<close>, \<^verbatim>\<open>'number'\<close>,
  \<^verbatim>\<open>'string'\<close>, \<^verbatim>\<open>'object'\<close> and \<^verbatim>\<open>'array'\<close> that \<^verbatim>\<open>getType\<close> of \<^verbatim>\<open>./value\<close> returns.\<close>

datatype vtype = TNull | TBoolean | TNumber | TString | TObject | TArray

fun data_type :: "jsdata \<Rightarrow> vtype" where
  "data_type JNull = TNull"
| "data_type (JBool _) = TBoolean"
| "data_type (JNum _) = TNumber"
| "data_type (JStr _) = TString"
| "data_type (JArr _) = TArray"
| "data_type (JObj _) = TObject"

text \<open>Modelled from the spec: \<^verbatim>\<open>value.getType()\<close> of \<^verbatim>\<open>./value\<close>, the type tag of a Value;
  a stream is always of type array.\<close>

fun getType :: "val \<Rightarrow> error + vtype" where
  "getType (StaticValue d) = Inr (data_type d)"
| "getType (StreamValue _ _) = Inr TArray"
| "getType BareNull = Inl TypeError"

text \<open>Modelled from the spec: \<^verbatim>\<open>value.getBoolean()\<close> of \<^verbatim>\<open>./value\<close>, true only for the
  literal boolean true.\<close>

fun getBoolean :: "val \<Rightarrow> error + bool" where
  "getBoolean (StaticValue d) = Inr (d = JBool True)"
| "getBoolean (StreamValue _ _) = Inr False"
| "getBoolean BareNull = Inl TypeError"

text \<open>
  Modelled from the spec: \<^verbatim>\<open>await value.get()\<close> of \<^verbatim>\<open>./value\<close>, the fully materialized
  data. A stream is drained, each element materialized as it is pulled; the first error
  met on the way is thrown.
\<close>

fun get :: "val \<Rightarrow> error + jsdata"
  and get_all :: "val list \<Rightarrow> error option \<Rightarrow> error + jsdata list" where
  "get (StaticValue d) = Inr d"
| "get (StreamValue vs fin) =
     (case get_all vs fin of Inl e \<Rightarrow> Inl e | Inr ds \<Rightarrow> Inr (JArr ds))"
| "get BareNull = Inl TypeError"
| "get_all [] fin = (case fin of None \<Rightarrow> Inr [] | Some e \<Rightarrow> Inl e)"
| "get_all (v # vs) fin =
     (case get v of
        Inl e \<Rightarrow> Inl e
      | Inr d \<Rightarrow> (case get_all vs fin of Inl e \<Rightarrow> Inl e | Inr ds \<Rightarrow> Inr (d # ds)))"

text \<open>
  Modelled from the spec: the iteration of a Value of \<^verbatim>\<open>./value\<close>,
  \<^verbatim>\<open>for await (let value of v)\<close>: the Values it hands to the loop body, in order, and the
  error that ends it, if one does. An eager array yields each element wrapped in a
  \<^verbatim>\<open>StaticValue\<close> (the evaluator calls \<^verbatim>\<open>getType\<close> on the elements and reads their
  \<^verbatim>\<open>data\<close>). The evaluator iterates only Values of type array, so the second and the
  last equation are never used by \<open>execute\<close>.
\<close>

fun iterate :: "val \<Rightarrow> val list \<times> error option" where
  "iterate (StaticValue (JArr ds)) = (map StaticValue ds, None)"
| "iterate (StaticValue _) = ([], Some TypeError)"
| "iterate (StreamValue vs fin) = (vs, fin)"
| "iterate BareNull = ([], Some TypeError)"

subsection \<open>Scopes and the document source\<close>

text \<open>\<^verbatim>\<open>class StaticSource\<close>: the documents, and \<^verbatim>\<open>createSink\<close>.\<close>

datatype static_source = StaticSource (documents: "jsdata list")

definition createSink :: "static_source \<Rightarrow> val" where
  "createSink src = StaticValue (JArr (documents src))"

text \<open>\<^verbatim>\<open>class Scope\<close>: \<^verbatim>\<open>params\<close>, \<^verbatim>\<open>source\<close>, \<^verbatim>\<open>value\<close>, \<^verbatim>\<open>parent\<close>.\<close>

datatype scope =
  Scope (scope_params: "(string \<times> jsdata) list") (scope_source: static_source)
        (scope_value: val) (scope_parent: "scope option")

definition createNested :: "scope \<Rightarrow> val \<Rightarrow> scope" where
  "createNested sc v = Scope (scope_params sc) (scope_source sc) v (Some sc)"

subsection \<open>Nodes\<close>

text \<open>
  A node is an object with a \<^verbatim>\<open>type\<close> field; the constructors are the keys of
  \<^verbatim>\<open>EXECUTORS\<close>, with the fields each executor destructures. \<open>OtherNode t\<close> is a node
  whose \<^verbatim>\<open>type\<close> is no key of the table, and \<open>OtherAttribute t\<close> an attribute whose
  \<^verbatim>\<open>type\<close> is neither \<^verbatim>\<open>ObjectSplat\<close> nor \<^verbatim>\<open>ObjectAttribute\<close>.
\<close>

datatype node =
    This
  | Star
  | Parent
  | OpCall string node node
  | FuncCall string "node list"
  | Filter node node
  | Element node node
  | Slice node node node bool
  | Attribute node string
  | Identifier string
  | Value jsdata
  | Projection node node
  | Flatten node
  | Deref node
  | Object "attribute list"
  | Array "node list"
  | And node node
  | Not node
  | OtherNode string
and attribute =
    ObjectSplat
  | ObjectAttribute node node
  | OtherAttribute string

subsection \<open>The registries\<close>

text \<open>
  Modelled from the spec: the modules \<^verbatim>\<open>./operators\<close> and \<^verbatim>\<open>./functions\<close> are required by
  the evaluator and are not part of it. An operator is called as
  \<^verbatim>\<open>func(left, right, scope, execute)\<close> and a function as \<^verbatim>\<open>func(args, scope, execute)\<close>, with
  the operand nodes unevaluated. In the model an implementation receives each operand
  already paired with \<^verbatim>\<open>execute\<close>: it can evaluate an operand in any scope, any number of
  times, or not at all, and it can throw. The fields of a \<^verbatim>\<open>StreamValue\<close> object are
  internal to \<^verbatim>\<open>./value\<close>; \<open>stream_props\<close> stands for the own enumerable properties of
  such an object.
\<close>

type_synonym operand = "scope \<Rightarrow> error + val"

record registries =
  reg_operators :: "string \<Rightarrow> (operand \<Rightarrow> operand \<Rightarrow> scope \<Rightarrow> error + val) option"
  reg_functions :: "string \<Rightarrow> (operand list \<Rightarrow> scope \<Rightarrow> error + val) option"
  stream_props :: "(string \<times> jsdata) list"

subsection \<open>The loops of the executors\<close>

text \<open>The generator of \<^verbatim>\<open>Filter\<close>; \<open>cond\<close> is the predicate run in the nested scope.\<close>

fun filter_gen ::
  "(val \<Rightarrow> error + val) \<Rightarrow> val list \<Rightarrow> error option \<Rightarrow> val list \<times> error option" where
  "filter_gen cond [] fin = ([], fin)"
| "filter_gen cond (v # vs) fin =
     (case cond v of
        Inl e \<Rightarrow> ([], Some e)
      | Inr condValue \<Rightarrow>
          (case getBoolean condValue of
             Inl e \<Rightarrow> ([], Some e)
           | Inr b \<Rightarrow>
               (case filter_gen cond vs fin of
                  (ys, fin') \<Rightarrow> (if b then v # ys else ys, fin'))))"

text \<open>The generator of \<^verbatim>\<open>Projection\<close>.\<close>

fun projection_gen ::
  "(val \<Rightarrow> error + val) \<Rightarrow> val list \<Rightarrow> error option \<Rightarrow> val list \<times> error option" where
  "projection_gen query [] fin = ([], fin)"
| "projection_gen query (v # vs) fin =
     (case query v of
        Inl e \<Rightarrow> ([], Some e)
      | Inr newValue \<Rightarrow>
          (case projection_gen query vs fin of (ys, fin') \<Rightarrow> (newValue # ys, fin')))"

text \<open>The generator of \<^verbatim>\<open>Flatten\<close>.\<close>

fun flatten_gen :: "val list \<Rightarrow> error option \<Rightarrow> val list \<times> error option" where
  "flatten_gen [] fin = ([], fin)"
| "flatten_gen (v # vs) fin =
     (case getType v of
        Inl e \<Rightarrow> ([], Some e)
      | Inr t \<Rightarrow>
          if t = TArray then
            (case iterate v of
               (elements, Some e) \<Rightarrow> (elements, Some e)
             | (elements, None) \<Rightarrow>
                 (case flatten_gen vs fin of (ys, fin') \<Rightarrow> (elements @ ys, fin')))
          else
            (case flatten_gen vs fin of (ys, fin') \<Rightarrow> (NULL_VALUE # ys, fin')))"

text \<open>The generator of \<^verbatim>\<open>Array\<close>, over the outcomes of the element expressions.\<close>

fun array_gen :: "(error + val) list \<Rightarrow> val list \<times> error option" where
  "array_gen [] = ([], None)"
| "array_gen (Inl e # rs) = ([], Some e)"
| "array_gen (Inr v # rs) = (case array_gen rs of (ys, fin) \<Rightarrow> (v # ys, fin))"

definition new_StreamValue :: "val list \<times> error option \<Rightarrow> val" where
  "new_StreamValue g = (case g of (ys, fin) \<Rightarrow> StreamValue ys fin)"

text \<open>\<^verbatim>\<open>doc.data._id\<close> in \<^verbatim>\<open>Deref\<close>: reading a property of \<^verbatim>\<open>null\<close> or of \<^verbatim>\<open>undefined\<close>
  throws; a value that is no object has no such property.\<close>

fun data_id :: "val \<Rightarrow> error + jsdata option" where
  "data_id (StaticValue JNull) = Inl TypeError"
| "data_id (StaticValue (JObj props)) = Inr (get_prop props ''_id'')"
| "data_id (StaticValue _) = Inr None"
| "data_id (StreamValue _ _) = Inl TypeError"
| "data_id BareNull = Inl TypeError"

text \<open>The scan of \<^verbatim>\<open>Deref\<close> over \<^verbatim>\<open>scope.source.createSink()\<close>.\<close>

fun deref_scan :: "string \<Rightarrow> val list \<Rightarrow> error option \<Rightarrow> error + val" where
  "deref_scan ref [] fin = (case fin of Some e \<Rightarrow> Inl e | None \<Rightarrow> Inr NULL_VALUE)"
| "deref_scan ref (doc # docs) fin =
     (case data_id doc of
        Inl e \<Rightarrow> Inl e
      | Inr x \<Rightarrow> if x = Some (JStr ref) then Inr doc else deref_scan ref docs fin)"

text \<open>
  Modelled from the spec: the own enumerable properties of a Value object of \<^verbatim>\<open>./value\<close>,
  which \<^verbatim>\<open>Object.assign(result, scope.value)\<close> copies. An eager Value holds its underlying
  data, which the evaluator reads as the field \<^verbatim>\<open>data\<close> (\<^verbatim>\<open>doc.data._id\<close>, \<^verbatim>\<open>key.data\<close>);
  a stream has its internal fields; \<^verbatim>\<open>Object.assign\<close> copies nothing from \<^verbatim>\<open>null\<close>.
\<close>

fun own_properties :: "registries \<Rightarrow> val \<Rightarrow> (string \<times> jsdata) list" where
  "own_properties env (StaticValue d) = [(''data'', d)]"
| "own_properties env (StreamValue _ _) = stream_props env"
| "own_properties env BareNull = []"

text \<open>
  \<^verbatim>\<open>key.data\<close> used as a property name in \<^verbatim>\<open>result[key.data]\<close>. It is read only from a
  key of type string, which is a \<^verbatim>\<open>StaticValue\<close> holding that string; the last equation
  is never used by \<open>execute\<close>.
\<close>

fun key_data :: "val \<Rightarrow> string" where
  "key_data (StaticValue (JStr s)) = s"
| "key_data _ = ''undefined''"

text \<open>The last steps of \<^verbatim>\<open>Element\<close> and of \<^verbatim>\<open>Slice\<close>, on the materialized data.\<close>

fun element_at :: "jsdata \<Rightarrow> jsdata \<Rightarrow> val" where
  "element_at (JArr array) (JNum idx0) =
     (let idx = (if idx0 < 0 then int (length array) + idx0 else idx0)
      in if idx \<ge> 0 \<and> idx < int (length array) then StaticValue (array ! nat idx)
         else NULL_VALUE)"
| "element_at _ _ = NULL_VALUE"

fun slice_of :: "jsdata \<Rightarrow> jsdata \<Rightarrow> jsdata \<Rightarrow> bool \<Rightarrow> val" where
  "slice_of (JArr array) (JNum leftIdx0) (JNum rightIdx0) isExclusive =
     (let leftIdx1 = (if leftIdx0 < 0 then int (length array) + leftIdx0 else leftIdx0);
          rightIdx1 = (if rightIdx0 < 0 then int (length array) + rightIdx0 else rightIdx0);
          rightIdx2 = (if \<not> isExclusive then rightIdx1 + 1 else rightIdx1);
          leftIdx = (if leftIdx1 < 0 then 0 else leftIdx1);
          rightIdx = (if rightIdx2 < 0 then 0 else rightIdx2)
      in StaticValue (JArr (js_slice array leftIdx rightIdx)))"
| "slice_of _ _ _ _ = NULL_VALUE"

subsection \<open>\<^verbatim>\<open>execute\<close> and the table \<^verbatim>\<open>EXECUTORS\<close>\<close>

text \<open>
  One equation for each key of the table, in the order of the source, and one for a
  \<^verbatim>\<open>node.type\<close> that is no key; \<open>execute_attributes\<close> is the loop of \<^verbatim>\<open>Object\<close> over the
  attributes, with the object built so far. Every \<^verbatim>\<open>await\<close> and every method call that
  can throw is a case distinction on its outcome. Where an executor has checked the type
  tag of a Value and then reads its data, the data has the shape of the tag, so the
  catch-all branches on data of another shape are never taken.
\<close>

fun execute :: "registries \<Rightarrow> node \<Rightarrow> scope \<Rightarrow> error + val"
  and execute_attributes ::
    "registries \<Rightarrow> attribute list \<Rightarrow> scope \<Rightarrow> (string \<times> jsdata) list \<Rightarrow> error + val" where
  "execute env This scope = Inr (scope_value scope)"
| "execute env Star scope = Inr (createSink (scope_source scope))"
| "execute env Parent scope =
     (case scope_parent scope of Some p \<Rightarrow> Inr (scope_value p) | None \<Rightarrow> Inr NULL_VALUE)"
| "execute env (OpCall op left right) scope =
     (case reg_operators env op of
        None \<Rightarrow> Inl (UnknownOperator op)
      | Some func \<Rightarrow> func (\<lambda>s. execute env left s) (\<lambda>s. execute env right s) scope)"
| "execute env (FuncCall name args) scope =
     (case reg_functions env name of
        None \<Rightarrow> Inl (UnknownFunction name)
      | Some func \<Rightarrow> func (map (\<lambda>a s. execute env a s) args) scope)"
| "execute env (Filter base query) scope =
     (case execute env base scope of
        Inl e \<Rightarrow> Inl e
      | Inr baseValue \<Rightarrow>
          (case getType baseValue of
             Inl e \<Rightarrow> Inl e
           | Inr t \<Rightarrow>
               if t \<noteq> TArray then Inr NULL_VALUE
               else (case iterate baseValue of
                       (vs, fin) \<Rightarrow>
                         Inr (new_StreamValue
                           (filter_gen (\<lambda>v. execute env query (createNested scope v)) vs fin)))))"
| "execute env (Element base index) scope =
     (case execute env base scope of
        Inl e \<Rightarrow> Inl e
      | Inr arrayValue \<Rightarrow>
          (case getType arrayValue of
             Inl e \<Rightarrow> Inl e
           | Inr t \<Rightarrow>
               if t \<noteq> TArray then Inr NULL_VALUE
               else (case execute env index scope of
                       Inl e \<Rightarrow> Inl e
                     | Inr idxValue \<Rightarrow>
                         (case getType idxValue of
                            Inl e \<Rightarrow> Inl e
                          | Inr ti \<Rightarrow>
                              if ti \<noteq> TNumber then Inr NULL_VALUE
                              else (case get arrayValue of
                                      Inl e \<Rightarrow> Inl e
                                    | Inr array \<Rightarrow>
                                        (case get idxValue of
                                           Inl e \<Rightarrow> Inl e
                                         | Inr idx \<Rightarrow> Inr (element_at array idx)))))))"
| "execute env (Slice base left right isExclusive) scope =
     (case execute env base scope of
        Inl e \<Rightarrow> Inl e
      | Inr arrayValue \<Rightarrow>
          (case getType arrayValue of
             Inl e \<Rightarrow> Inl e
           | Inr t \<Rightarrow>
               if t \<noteq> TArray then Inr NULL_VALUE
               else (case execute env left scope of
                       Inl e \<Rightarrow> Inl e
                     | Inr leftIdxValue \<Rightarrow>
                         (case execute env right scope of
                            Inl e \<Rightarrow> Inl e
                          | Inr rightIdxValue \<Rightarrow>
                              (case getType leftIdxValue of
                                 Inl e \<Rightarrow> Inl e
                               | Inr tleft \<Rightarrow>
                                   if tleft \<noteq> TNumber then Inr BareNull
                                   else (case getType rightIdxValue of
                                           Inl e \<Rightarrow> Inl e
                                         | Inr tright \<Rightarrow>
                                             if tright \<noteq> TNumber then Inr BareNull
                                             else (case get arrayValue of
                                                     Inl e \<Rightarrow> Inl e
                                                   | Inr array \<Rightarrow>
                                                       (case get leftIdxValue of
                                                          Inl e \<Rightarrow> Inl e
                                                        | Inr leftIdx \<Rightarrow>
                                                            (case get rightIdxValue of
                                                               Inl e \<Rightarrow> Inl e
                                                             | Inr rightIdx \<Rightarrow>
                                                                 Inr (slice_of array leftIdx rightIdx
                                                                   isExclusive))))))))))"
| "execute env (Attribute base name) scope =
     (case execute env base scope of
        Inl e \<Rightarrow> Inl e
      | Inr baseValue \<Rightarrow>
          (case getType baseValue of
             Inl e \<Rightarrow> Inl e
           | Inr t \<Rightarrow>
               if t = TObject then
                 (case get baseValue of
                    Inl e \<Rightarrow> Inl e
                  | Inr (JObj baseData) \<Rightarrow>
                      (case get_prop baseData name of
                         Some d \<Rightarrow> Inr (StaticValue d)
                       | None \<Rightarrow> Inr NULL_VALUE)
                  | Inr _ \<Rightarrow> Inr NULL_VALUE)
               else Inr NULL_VALUE))"
| "execute env (Identifier name) scope =
     (case getType (scope_value scope) of
        Inl e \<Rightarrow> Inl e
      | Inr t \<Rightarrow>
          if t = TObject then
            (case get (scope_value scope) of
               Inl e \<Rightarrow> Inl e
             | Inr (JObj data) \<Rightarrow>
                 (case get_prop data name of
                    Some d \<Rightarrow> Inr (StaticValue d)
                  | None \<Rightarrow> Inr NULL_VALUE)
             | Inr _ \<Rightarrow> Inr NULL_VALUE)
          else Inr NULL_VALUE)"
| "execute env (Value v) scope = Inr (StaticValue v)"
| "execute env (Projection base query) scope =
     (case execute env base scope of
        Inl e \<Rightarrow> Inl e
      | Inr baseValue \<Rightarrow>
          (case getType baseValue of
             Inl e \<Rightarrow> Inl e
           | Inr t \<Rightarrow>
               if t = TArray then
                 (case iterate baseValue of
                    (vs, fin) \<Rightarrow>
                      Inr (new_StreamValue
                        (projection_gen (\<lambda>v. execute env query (createNested scope v)) vs fin)))
               else execute env query (createNested scope baseValue)))"
| "execute env (Flatten base) scope =
     (case execute env base scope of
        Inl e \<Rightarrow> Inl e
      | Inr baseValue \<Rightarrow>
          (case getType baseValue of
             Inl e \<Rightarrow> Inl e
           | Inr t \<Rightarrow>
               if t \<noteq> TArray then Inr NULL_VALUE
               else (case iterate baseValue of
                       (vs, fin) \<Rightarrow> Inr (new_StreamValue (flatten_gen vs fin)))))"
| "execute env (Deref base) scope =
     (case execute env base scope of
        Inl e \<Rightarrow> Inl e
      | Inr baseValue \<Rightarrow>
          (case getType baseValue of
             Inl e \<Rightarrow> Inl e
           | Inr t \<Rightarrow>
               if t \<noteq> TObject then Inr NULL_VALUE
               else (case get baseValue of
                       Inl e \<Rightarrow> Inl e
                     | Inr (JObj props) \<Rightarrow>
                         (case get_prop props ''_ref'' of
                            Some (JStr ref) \<Rightarrow>
                              (case iterate (createSink (scope_source scope)) of
                                 (docs, fin) \<Rightarrow> deref_scan ref docs fin)
                          | _ \<Rightarrow> Inr NULL_VALUE)
                     | Inr _ \<Rightarrow> Inr NULL_VALUE)))"
| "execute env (Object attributes) scope = execute_attributes env attributes scope []"
| "execute env (Array elements) scope =
     Inr (new_StreamValue (array_gen (map (\<lambda>element. execute env element scope) elements)))"
| "execute env (And left right) scope =
     (case execute env left scope of
        Inl e \<Rightarrow> Inl e
      | Inr leftValue \<Rightarrow>
          (case getBoolean leftValue of
             Inl e \<Rightarrow> Inl e
           | Inr lb \<Rightarrow>
               if \<not> lb then Inr FALSE_VALUE
               else (case execute env right scope of
                       Inl e \<Rightarrow> Inl e
                     | Inr rightValue \<Rightarrow>
                         (case getBoolean rightValue of
                            Inl e \<Rightarrow> Inl e
                          | Inr rb \<Rightarrow> if \<not> rb then Inr FALSE_VALUE else Inr TRUE_VALUE))))"
| "execute env (Not base) scope =
     (case execute env base scope of
        Inl e \<Rightarrow> Inl e
      | Inr v \<Rightarrow>
          (case getBoolean v of
             Inl e \<Rightarrow> Inl e
           | Inr b \<Rightarrow> if b then Inr FALSE_VALUE else Inr TRUE_VALUE))"
| "execute env (OtherNode t) scope = Inl (NoExecutor t)"
| "execute_attributes env [] scope result = Inr (StaticValue (JObj result))"
| "execute_attributes env (ObjectSplat # attrs) scope result =
     execute_attributes env attrs scope
       (object_assign result (own_properties env (scope_value scope)))"
| "execute_attributes env (ObjectAttribute k v # attrs) scope result =
     (case execute env k scope of
        Inl e \<Rightarrow> Inl e
      | Inr key \<Rightarrow>
          (case getType key of
             Inl e \<Rightarrow> Inl e
           | Inr tk \<Rightarrow>
               if tk \<noteq> TString then execute_attributes env attrs scope result
               else (case execute env v scope of
                       Inl e \<Rightarrow> Inl e
                     | Inr val \<Rightarrow>
                         (case getType val of
                            Inl e \<Rightarrow> Inl e
                          | Inr tv \<Rightarrow>
                              if tv = TNull then execute_attributes env attrs scope result
                              else (case get val of
                                      Inl e \<Rightarrow> Inl e
                                    | Inr d \<Rightarrow>
                                        execute_attributes env attrs scope
                                          (set_prop result (key_data key) d))))))"
| "execute_attributes env (OtherAttribute t # attrs) scope result = Inl (UnknownNodeType t)"

subsection \<open>\<^verbatim>\<open>evaluate\<close>\<close>

text \<open>
  The second argument of \<^verbatim>\<open>evaluate\<close>. A field that is absent (\<^verbatim>\<open>undefined\<close>) is \<open>None\<close>;
  \<^verbatim>\<open>documents\<close> can hold any data, \<^verbatim>\<open>params\<close> an object.
\<close>

record options =
  opt_documents :: "jsdata option"
  opt_params :: "(string \<times> jsdata) list option"

definition evaluate :: "registries \<Rightarrow> node \<Rightarrow> options \<Rightarrow> error + val" where
  "evaluate env tree options =
     (let params = [(''identity'', JStr ''groot'')] in
      case (case opt_documents options of
              None \<Rightarrow> Inr (StaticSource [])
            | Some JNull \<Rightarrow> Inr (StaticSource [])
            | Some (JArr docs) \<Rightarrow> Inr (StaticSource docs)
            | Some _ \<Rightarrow> Inl DocumentsNotArray) of
        Inl e \<Rightarrow> Inl e
      | Inr source \<Rightarrow>
          (let params' = (case opt_params options of
                            None \<Rightarrow> params
                          | Some given \<Rightarrow> object_assign params given)
           in execute env tree (Scope params' source NULL_VALUE None)))"

subsection \<open>Example inputs\<close>

text \<open>Empty registries, and the root scope that \<^verbatim>\<open>evaluate\<close> builds over some documents.\<close>

definition no_registries :: registries where
  "no_registries =
     \<lparr>reg_operators = (\<lambda>_. None), reg_functions = (\<lambda>_. None), stream_props = []\<rparr>"

definition root_scope :: "jsdata list \<Rightarrow> scope" where
  "root_scope docs = Scope [(''identity'', JStr ''groot'')] (StaticSource docs) NULL_VALUE None"




subsection \<open>Vocabulary of the properties\<close>

text \<open>
  The errors that stand for a fault in the query or in the registries, as opposed to a
  \<^verbatim>\<open>TypeError\<close> of the language or the configuration error of \<^verbatim>\<open>evaluate\<close>.
\<close>

fun structural :: "error \<Rightarrow> bool" where
  "structural (NoExecutor _) = True"
| "structural (UnknownOperator _) = True"
| "structural (UnknownFunction _) = True"
| "structural (UnknownNodeType _) = True"
| "structural (RegistryError _) = True"
| "structural DocumentsNotArray = False"
| "structural TypeError = False"

definition proper_end :: "error option \<Rightarrow> bool" where
  "proper_end fin = (case fin of None \<Rightarrow> True | Some e \<Rightarrow> structural e)"

text \<open>A proper Value: no \<^verbatim>\<open>null\<close> of the language in it or among the elements of its
  streams, and a stream in it ends normally or with a structural error.\<close>

fun proper :: "val \<Rightarrow> bool" where
  "proper (StaticValue d) = True"
| "proper (StreamValue vs fin) = (list_all proper vs \<and> proper_end fin)"
| "proper BareNull = False"






text \<open>The \<^verbatim>\<open>_id\<close> of a document, when it has one.\<close>

definition document_id :: "jsdata \<Rightarrow> jsdata option" where
  "document_id doc = (case doc of JObj props \<Rightarrow> get_prop props ''_id'' | _ \<Rightarrow> None)"

text \<open>The predicate of a \<^verbatim>\<open>Filter\<close> holds for an element: run in the nested scope with the
  element as current value, it returns a Value whose boolean coercion is true.\<close>

definition keeps :: "registries \<Rightarrow> node \<Rightarrow> scope \<Rightarrow> val \<Rightarrow> bool" where
  "keeps env query scope v =
     (case execute env query (createNested scope v) of
        Inl e \<Rightarrow> False
      | Inr condValue \<Rightarrow> getBoolean condValue = Inr True)"

text \<open>The predicate of a \<^verbatim>\<open>Filter\<close> decides an element: it returns a Value.\<close>

definition decides :: "registries \<Rightarrow> node \<Rightarrow> scope \<Rightarrow> val \<Rightarrow> bool" where
  "decides env query scope v =
     (case execute env query (createNested scope v) of
        Inl e \<Rightarrow> False
      | Inr condValue \<Rightarrow> condValue \<noteq> BareNull)"

text \<open>What \<^verbatim>\<open>Flatten\<close> puts in the place of one element.\<close>

definition flattened :: "val \<Rightarrow> val list" where
  "flattened v = (if getType v = Inr TArray then fst (iterate v) else [NULL_VALUE])"

text \<open>Two collections of documents.\<close>

definition two_documents :: "jsdata list" where
  "two_documents =
     [JObj [(''_id'', JStr ''x''), (''v'', JNum 1)], JObj [(''_id'', JStr ''y''), (''v'', JNum 2)]]"

definition flagged_documents :: "jsdata list" where
  "flagged_documents =
     [JObj [(''_id'', JStr ''a''), (''ok'', JBool True)],
      JObj [(''_id'', JStr ''b''), (''ok'', JBool False)],
      JObj [(''_id'', JStr ''c''), (''ok'', JBool True)],
      JObj [(''_id'', JStr ''d'')]]"

section \<open>Properties\<close>

subsection \<open>Type tags and data\<close>

lemma getType_TNumber: "getType v = Inr TNumber \<longleftrightarrow> (\<exists>n. v = StaticValue (JNum n))"
  by (cases v; cases "case v of StaticValue d \<Rightarrow> d | _ \<Rightarrow> JNull") auto

lemma getType_TString: "getType v = Inr TString \<longleftrightarrow> (\<exists>s. v = StaticValue (JStr s))"
  by (cases v; cases "case v of StaticValue d \<Rightarrow> d | _ \<Rightarrow> JNull") auto

lemma getType_TObject: "getType v = Inr TObject \<longleftrightarrow> (\<exists>props. v = StaticValue (JObj props))"
  by (cases v; cases "case v of StaticValue d \<Rightarrow> d | _ \<Rightarrow> JNull") auto

lemma getType_TArray:
  "getType v = Inr TArray \<longleftrightarrow>
     (\<exists>ds. v = StaticValue (JArr ds)) \<or> (\<exists>vs fin. v = StreamValue vs fin)"
  by (cases v; cases "case v of StaticValue d \<Rightarrow> d | _ \<Rightarrow> JNull") auto

text \<open>The data of a Value of type array is an array: the other branches of
  \<open>element_at\<close> and \<open>slice_of\<close> are never taken by \<open>execute\<close>.\<close>

lemma get_TArray: "getType v = Inr TArray \<Longrightarrow> get v = Inr d \<Longrightarrow> \<exists>ds. d = JArr ds"
  by (auto simp: getType_TArray split: sum.splits)

subsection \<open>Element\<close>

text \<open>
  C5. For an \<^verbatim>\<open>Element\<close> node whose base evaluates to a Value: a base that is not of type
  array gives the null Value; an index that is not of type number gives the null Value;
  otherwise, with the materialized array \<open>A\<close> and the index \<open>i\<close>, a negative \<open>i\<close> is
  replaced by \<open>length A + i\<close>, an index inside \<open>[0, length A)\<close> after that gives the
  element at that index as an eager Value, and an index outside gives the null Value.
\<close>

theorem Element_index:
  assumes "execute env base scope = Inr arrayValue"
  shows "(\<forall>t. getType arrayValue = Inr t \<and> t \<noteq> TArray \<longrightarrow>
            execute env (Element base index) scope = Inr NULL_VALUE)
       \<and> (\<forall>idxValue t. getType arrayValue = Inr TArray
            \<and> execute env index scope = Inr idxValue
            \<and> getType idxValue = Inr t \<and> t \<noteq> TNumber \<longrightarrow>
            execute env (Element base index) scope = Inr NULL_VALUE)
       \<and> (\<forall>A i. getType arrayValue = Inr TArray \<and> get arrayValue = Inr (JArr A)
            \<and> execute env index scope = Inr (StaticValue (JNum i)) \<longrightarrow>
            (let idx = (if i < 0 then int (length A) + i else i) in
               (0 \<le> idx \<and> idx < int (length A) \<longrightarrow>
                  execute env (Element base index) scope = Inr (StaticValue (A ! nat idx)))
             \<and> (\<not> (0 \<le> idx \<and> idx < int (length A)) \<longrightarrow>
                  execute env (Element base index) scope = Inr NULL_VALUE)))"
  using assms by (simp add: Let_def)

theorem Element_index_witness:
  "execute no_registries (Element (Value (JStr ''abc'')) (Value (JNum 0))) (root_scope [])
     = Inr NULL_VALUE
 \<and> execute no_registries
     (Element (Value (JArr [JNum 10, JNum 20, JNum 30])) (Value (JStr ''a''))) (root_scope [])
     = Inr NULL_VALUE
 \<and> execute no_registries
     (Element (Value (JArr [JNum 10, JNum 20, JNum 30])) (Value (JNum (- 1)))) (root_scope [])
     = Inr (StaticValue (JNum 30))
 \<and> execute no_registries
     (Element (Value (JArr [JNum 10, JNum 20, JNum 30])) (Value (JNum 1))) (root_scope [])
     = Inr (StaticValue (JNum 20))
 \<and> execute no_registries
     (Element (Value (JArr [JNum 10, JNum 20, JNum 30])) (Value (JNum 3))) (root_scope [])
     = Inr NULL_VALUE
 \<and> execute no_registries
     (Element (Value (JArr [JNum 10, JNum 20, JNum 30])) (Value (JNum (- 4)))) (root_scope [])
     = Inr NULL_VALUE"
  using
    Element_index [of no_registries "Value (JStr ''abc'')" "root_scope []"
      "StaticValue (JStr ''abc'')" "Value (JNum 0)"]
    Element_index [of no_registries "Value (JArr [JNum 10, JNum 20, JNum 30])" "root_scope []"
      "StaticValue (JArr [JNum 10, JNum 20, JNum 30])" "Value (JStr ''a'')"]
    Element_index [of no_registries "Value (JArr [JNum 10, JNum 20, JNum 30])" "root_scope []"
      "StaticValue (JArr [JNum 10, JNum 20, JNum 30])" "Value (JNum (- 1))"]
  by simp

subsection \<open>Slice\<close>

lemma js_slice_nonneg:
  "0 \<le> l \<Longrightarrow> 0 \<le> r \<Longrightarrow> js_slice xs l r = take (nat r - nat l) (drop (nat l) xs)"
  by (auto simp: js_slice_def Let_def min_def nat_diff_distrib')

lemma slice_of_JArr:
  "slice_of (JArr A) (JNum l) (JNum r) isExclusive =
     (let len = int (length A);
          l1 = (if l < 0 then len + l else l);
          r1 = (if r < 0 then len + r else r);
          r2 = (if isExclusive then r1 else r1 + 1);
          lo = max 0 l1;
          hi = max 0 r2
      in StaticValue (JArr (take (nat hi - nat lo) (drop (nat lo) A))))"
proof -
  have "js_slice A (if l1 < 0 then 0 else l1) (if r2 < 0 then 0 else r2)
      = take (nat (max 0 r2) - nat (max 0 l1)) (drop (nat (max 0 l1)) A)" for l1 r2 :: int
    by (subst js_slice_nonneg) (simp_all add: max_def)
  then show ?thesis
    by (simp add: Let_def)
qed

text \<open>
  C6. For a \<^verbatim>\<open>Slice\<close> node over an array base with numeric bounds: a negative bound has
  the length of the array added; when the range is not exclusive the right bound is then
  increased by one; both bounds are then raised to 0 when negative, and not cut to the
  length; the result holds the elements from the left bound up to, not including, the
  right bound, as far as the array goes.
\<close>

theorem Slice_bounds:
  assumes "execute env base scope = Inr arrayValue"
    and "getType arrayValue = Inr TArray"
    and "get arrayValue = Inr (JArr A)"
    and "execute env left scope = Inr (StaticValue (JNum l))"
    and "execute env right scope = Inr (StaticValue (JNum r))"
  shows "execute env (Slice base left right isExclusive) scope =
     (let len = int (length A);
          l1 = (if l < 0 then len + l else l);
          r1 = (if r < 0 then len + r else r);
          r2 = (if isExclusive then r1 else r1 + 1);
          lo = max 0 l1;
          hi = max 0 r2
      in Inr (StaticValue (JArr (take (nat hi - nat lo) (drop (nat lo) A)))))"
proof -
  have "execute env (Slice base left right isExclusive) scope
      = Inr (slice_of (JArr A) (JNum l) (JNum r) isExclusive)"
    using assms by simp
  then show ?thesis
    by (simp only: slice_of_JArr Let_def)
qed

theorem Slice_bounds_witness:
  "execute no_registries
     (Slice (Value (JArr [JNum 1, JNum 2, JNum 3, JNum 4])) (Value (JNum 1)) (Value (JNum 2)) False)
     (root_scope []) = Inr (StaticValue (JArr [JNum 2, JNum 3]))
 \<and> execute no_registries
     (Slice (Value (JArr [JNum 1, JNum 2, JNum 3, JNum 4])) (Value (JNum 1)) (Value (JNum 2)) True)
     (root_scope []) = Inr (StaticValue (JArr [JNum 2]))
 \<and> execute no_registries
     (Slice (Value (JArr [JNum 1, JNum 2, JNum 3, JNum 4])) (Value (JNum (- 2))) (Value (JNum 9)) True)
     (root_scope []) = Inr (StaticValue (JArr [JNum 3, JNum 4]))"
proof -
  let ?A = "[JNum 1, JNum 2, JNum 3, JNum 4]"
  have base: "execute no_registries (Value (JArr ?A)) (root_scope []) = Inr (StaticValue (JArr ?A))"
    and ty: "getType (StaticValue (JArr ?A)) = Inr TArray"
    and data: "get (StaticValue (JArr ?A)) = Inr (JArr ?A)"
    and num: "\<And>n. execute no_registries (Value (JNum n)) (root_scope []) = Inr (StaticValue (JNum n))"
    by simp_all
  show ?thesis
    using Slice_bounds [OF base ty data num num, of 1 2 False]
      Slice_bounds [OF base ty data num num, of 1 2 True]
      Slice_bounds [OF base ty data num num, of "- 2" 9 True]
    by (simp del: execute.simps)
qed

subsection \<open>The parameters of the root scope\<close>





subsection \<open>The documents of the root scope\<close>

text \<open>
  C3. When \<^verbatim>\<open>options.documents\<close> is omitted, or is \<^verbatim>\<open>null\<close>, \<^verbatim>\<open>evaluate\<close> runs the tree
  against an empty document source; when it is present, not \<^verbatim>\<open>null\<close> and not an array,
  \<^verbatim>\<open>evaluate\<close> fails with the configuration error whatever the tree is, that is, before
  any node is evaluated.
\<close>

theorem evaluate_documents:
  "(opt_documents options = None \<or> opt_documents options = Some JNull \<longrightarrow>
      evaluate env tree options =
        execute env tree
          (Scope (case opt_params options of
                    None \<Rightarrow> [(''identity'', JStr ''groot'')]
                  | Some given \<Rightarrow> object_assign [(''identity'', JStr ''groot'')] given)
             (StaticSource []) NULL_VALUE None))
 \<and> (\<forall>d. opt_documents options = Some d \<and> d \<noteq> JNull \<and> data_type d \<noteq> TArray \<longrightarrow>
      evaluate env tree options = Inl DocumentsNotArray)"
proof -
  have "evaluate env tree options = Inl DocumentsNotArray"
    if "opt_documents options = Some d" "d \<noteq> JNull" "data_type d \<noteq> TArray" for d
    using that by (cases d) (simp_all add: evaluate_def)
  then show ?thesis
    by (auto simp: evaluate_def Let_def)
qed

theorem evaluate_documents_witness:
  "evaluate no_registries Star \<lparr>opt_documents = None, opt_params = None\<rparr>
     = execute no_registries Star (root_scope [])
 \<and> execute no_registries Star (root_scope []) = Inr (StaticValue (JArr []))
 \<and> evaluate no_registries (OtherNode ''Nope'')
      \<lparr>opt_documents = Some (JObj [(''_id'', JStr ''x'')]), opt_params = None\<rparr>
     = Inl DocumentsNotArray"
  using
    evaluate_documents [of "\<lparr>opt_documents = None, opt_params = None\<rparr>" no_registries Star]
    evaluate_documents [of
      "\<lparr>opt_documents = Some (JObj [(''_id'', JStr ''x'')]), opt_params = None\<rparr>"
      no_registries "OtherNode ''Nope''"]
  by (simp add: root_scope_def createSink_def)

text \<open>The claim as written fails for \<^verbatim>\<open>documents: null\<close>, which is present and is no array:
  no error is raised, and the query runs against no documents.\<close>

theorem evaluate_documents_null_counterexample:
  "data_type JNull \<noteq> TArray
 \<and> evaluate no_registries Star \<lparr>opt_documents = Some JNull, opt_params = None\<rparr>
     = Inr (StaticValue (JArr []))"
  by (simp add: evaluate_def createSink_def)

subsection \<open>Deref\<close>

lemma deref_scan_find:
  "JNull \<notin> set docs \<Longrightarrow>
   deref_scan ref (map StaticValue docs) None =
     (case find (\<lambda>doc. document_id doc = Some (JStr ref)) docs of
        Some doc \<Rightarrow> Inr (StaticValue doc)
      | None \<Rightarrow> Inr NULL_VALUE)"
proof (induction docs)
  case Nil
  then show ?case by simp
next
  case (Cons d docs)
  then show ?case by (cases d) (simp_all add: document_id_def)
qed

text \<open>
  C8. For a \<^verbatim>\<open>Deref\<close> node whose base evaluates to a Value: a base that is not of type
  object gives the null Value; an object without a \<^verbatim>\<open>_ref\<close> property, or whose \<^verbatim>\<open>_ref\<close>
  is no string, gives the null Value; otherwise, over documents none of which is
  \<^verbatim>\<open>null\<close>, the result is the first document, in the order of the source, whose \<^verbatim>\<open>_id\<close>
  is that string, and the null Value when there is none.
\<close>

theorem Deref_scan:
  assumes "execute env base scope = Inr baseValue"
  shows "(\<forall>t. getType baseValue = Inr t \<and> t \<noteq> TObject \<longrightarrow>
            execute env (Deref base) scope = Inr NULL_VALUE)
       \<and> (\<forall>props. baseValue = StaticValue (JObj props)
            \<and> (\<forall>ref. get_prop props ''_ref'' \<noteq> Some (JStr ref)) \<longrightarrow>
            execute env (Deref base) scope = Inr NULL_VALUE)
       \<and> (\<forall>props ref. baseValue = StaticValue (JObj props)
            \<and> get_prop props ''_ref'' = Some (JStr ref)
            \<and> JNull \<notin> set (documents (scope_source scope)) \<longrightarrow>
            execute env (Deref base) scope =
              (case find (\<lambda>doc. document_id doc = Some (JStr ref))
                      (documents (scope_source scope)) of
                 Some doc \<Rightarrow> Inr (StaticValue doc)
               | None \<Rightarrow> Inr NULL_VALUE))"
proof (intro conjI allI impI)
  fix t assume "getType baseValue = Inr t \<and> t \<noteq> TObject"
  with assms show "execute env (Deref base) scope = Inr NULL_VALUE" by simp
next
  fix props
  assume "baseValue = StaticValue (JObj props) \<and> (\<forall>ref. get_prop props ''_ref'' \<noteq> Some (JStr ref))"
  with assms show "execute env (Deref base) scope = Inr NULL_VALUE"
    by (auto split: option.splits jsdata.splits)
next
  fix props ref
  assume "baseValue = StaticValue (JObj props) \<and> get_prop props ''_ref'' = Some (JStr ref)
    \<and> JNull \<notin> set (documents (scope_source scope))"
  with assms show "execute env (Deref base) scope =
      (case find (\<lambda>doc. document_id doc = Some (JStr ref)) (documents (scope_source scope)) of
         Some doc \<Rightarrow> Inr (StaticValue doc)
       | None \<Rightarrow> Inr NULL_VALUE)"
    by (simp add: createSink_def deref_scan_find)
qed

theorem Deref_scan_witness:
  "execute no_registries (Deref (Value (JStr ''y''))) (root_scope two_documents) = Inr NULL_VALUE
 \<and> execute no_registries (Deref (Value (JObj [(''ref'', JStr ''y'')]))) (root_scope two_documents)
     = Inr NULL_VALUE
 \<and> execute no_registries (Deref (Value (JObj [(''_ref'', JNum 7)]))) (root_scope two_documents)
     = Inr NULL_VALUE
 \<and> execute no_registries (Deref (Value (JObj [(''_ref'', JStr ''y'')]))) (root_scope two_documents)
     = Inr (StaticValue (JObj [(''_id'', JStr ''y''), (''v'', JNum 2)]))
 \<and> execute no_registries (Deref (Value (JObj [(''_ref'', JStr ''z'')]))) (root_scope two_documents)
     = Inr NULL_VALUE"
proof -
  have base: "execute no_registries (Value d) (root_scope two_documents) = Inr (StaticValue d)" for d
    by simp
  show ?thesis
    using Deref_scan [OF base, of "JStr ''y''"]
      Deref_scan [OF base, of "JObj [(''ref'', JStr ''y'')]"]
      Deref_scan [OF base, of "JObj [(''_ref'', JNum 7)]"]
      Deref_scan [OF base, of "JObj [(''_ref'', JStr ''y'')]"]
      Deref_scan [OF base, of "JObj [(''_ref'', JStr ''z'')]"]
    by (simp add: get_prop_def document_id_def root_scope_def two_documents_def
          del: execute.simps)
qed

subsection \<open>Flatten\<close>

lemma flatten_gen_concat:
  "\<forall>v\<in>set vs. v \<noteq> BareNull \<and> (getType v = Inr TArray \<longrightarrow> snd (iterate v) = None) \<Longrightarrow>
   flatten_gen vs fin = (concat (map flattened vs), fin)"
proof (induction vs)
  case Nil
  then show ?case by simp
next
  case (Cons v vs)
  then have v: "v \<noteq> BareNull" "getType v = Inr TArray \<longrightarrow> snd (iterate v) = None" by simp_all
  from v(1) obtain t where t: "getType v = Inr t" by (cases v) auto
  from Cons have rest: "flatten_gen vs fin = (concat (map flattened vs), fin)" by simp
  show ?case
  proof (cases "t = TArray")
    case True
    with v(2) t obtain es where es: "iterate v = (es, None)" by (cases "iterate v") auto
    with t True have "flattened v = es" by (simp add: flattened_def)
    with t True rest es show ?thesis by simp
  next
    case False
    with t have "flattened v = [NULL_VALUE]" by (simp add: flattened_def)
    with t False rest show ?thesis by simp
  qed
qed

text \<open>
  C7. For a \<^verbatim>\<open>Flatten\<close> node whose base evaluates to a Value: a base that is not of type
  array gives the null Value; otherwise the result is a stream that holds, in the order of
  the base, the elements of each element of type array (one level only) and one null
  Value in the place of each other element. The elements of the base are Values, and an
  element that is a stream is one that ends normally.
\<close>

theorem Flatten_depth_one:
  assumes "execute env base scope = Inr baseValue"
  shows "(\<forall>t. getType baseValue = Inr t \<and> t \<noteq> TArray \<longrightarrow>
            execute env (Flatten base) scope = Inr NULL_VALUE)
       \<and> (\<forall>vs fin. getType baseValue = Inr TArray \<and> iterate baseValue = (vs, fin)
            \<and> (\<forall>v\<in>set vs. v \<noteq> BareNull \<and> (getType v = Inr TArray \<longrightarrow> snd (iterate v) = None)) \<longrightarrow>
            execute env (Flatten base) scope =
              Inr (StreamValue (concat (map flattened vs)) fin))"
  using assms by (simp add: flatten_gen_concat new_StreamValue_def)


theorem Flatten_depth_one_witness:
  "execute no_registries (Flatten (Value (JNum 3))) (root_scope []) = Inr NULL_VALUE
 \<and> execute no_registries
      (Flatten (Value (JArr [JArr [JNum 1, JNum 2], JNum 3, JArr [JNum 4]]))) (root_scope [])
     = Inr (StreamValue
         [StaticValue (JNum 1), StaticValue (JNum 2), NULL_VALUE, StaticValue (JNum 4)] None)
 \<and> get (StreamValue
         [StaticValue (JNum 1), StaticValue (JNum 2), NULL_VALUE, StaticValue (JNum 4)] None)
     = Inr (JArr [JNum 1, JNum 2, JNull, JNum 4])"
proof -
  let ?A = "JArr [JArr [JNum 1, JNum 2], JNum 3, JArr [JNum 4]]"
  have three: "execute no_registries (Value (JNum 3)) (root_scope []) = Inr (StaticValue (JNum 3))"
    and base: "execute no_registries (Value ?A) (root_scope []) = Inr (StaticValue ?A)"
    by simp_all
  show ?thesis
    using Flatten_depth_one [OF three] Flatten_depth_one [OF base]
    by (simp add: flattened_def NULL_VALUE_def del: execute.simps)
qed

subsection \<open>Filter\<close>

lemma filter_gen_subseq: "filter_gen cond vs fin = (ys, fin') \<Longrightarrow> subseq ys vs"
proof (induction vs arbitrary: ys fin')
  case Nil
  then show ?case by simp
next
  case (Cons v vs)
  show ?case
  proof (cases "cond v")
    case (Inl e)
    with Cons.prems show ?thesis by simp
  next
    case c: (Inr c)
    show ?thesis
    proof (cases "getBoolean c")
      case (Inl e)
      with c Cons.prems show ?thesis by simp
    next
      case b: (Inr b)
      obtain zs fin2 where rest: "filter_gen cond vs fin = (zs, fin2)"
        by (cases "filter_gen cond vs fin")
      from Cons.IH [OF rest] have "subseq zs vs" .
      with Cons.prems c b rest show ?thesis by (auto split: if_splits)
    qed
  qed
qed

lemma filter_gen_filter:
  "\<forall>v\<in>set vs. decides env query scope v \<Longrightarrow>
   filter_gen (\<lambda>v. execute env query (createNested scope v)) vs fin
     = (filter (keeps env query scope) vs, fin)"
proof (induction vs)
  case Nil
  then show ?case by simp
next
  case (Cons v vs)
  then obtain c where c: "execute env query (createNested scope v) = Inr c" "c \<noteq> BareNull"
    by (auto simp: decides_def split: sum.splits)
  from c(2) obtain b where b: "getBoolean c = Inr b" by (cases c) auto
  from c b have "keeps env query scope v = b" by (simp add: keeps_def)
  with Cons c b show ?case by simp
qed

lemma get_all_map_StaticValue: "get_all (map StaticValue A) None = Inr A"
  by (induction A) simp_all

lemma get_iterate:
  "getType v = Inr TArray \<Longrightarrow> iterate v = (vs, fin) \<Longrightarrow> get v = Inr (JArr A) \<Longrightarrow>
     get_all vs fin = Inr A"
  by (auto simp: getType_TArray get_all_map_StaticValue split: sum.splits)

lemma get_all_length: "get_all vs fin = Inr A \<Longrightarrow> length A = length vs"
  by (induction vs arbitrary: A) (auto split: sum.splits option.splits)

lemma get_all_filter:
  "get_all vs None = Inr A \<Longrightarrow>
   get_all (filter P vs) None = Inr (map snd (filter (\<lambda>(v, a). P v) (zip vs A)))"
proof (induction vs arbitrary: A)
  case Nil
  then show ?case by simp
next
  case (Cons v vs)
  then obtain a As where A: "A = a # As" "get v = Inr a" "get_all vs None = Inr As"
    by (auto split: sum.splits)
  from Cons.IH [OF A(3)] A show ?case by simp
qed

lemma subseq_zip_filter:
  "length vs = length A \<Longrightarrow> subseq (map snd (filter Q (zip vs A))) A"
proof -
  assume "length vs = length A"
  then have "map snd (zip vs A) = A" by simp
  moreover have "subseq (map snd (filter Q (zip vs A))) (map snd (zip vs A))"
    by (rule subseq_map) (rule subseq_filter_left)
  ultimately show ?thesis by simp
qed

text \<open>
  C9. For a \<^verbatim>\<open>Filter\<close> node whose base evaluates to a Value: a base that is not of type
  array gives the null Value; otherwise the result is a stream whose elements are a
  subsequence of the elements of the base; when the predicate returns a Value for every
  element, the stream holds exactly the elements for which the predicate, run in the
  nested scope with the element as current value, coerces to true, in their order; and
  its materialization is then a subsequence of the materialized base.
\<close>

theorem Filter_subsequence:
  assumes "execute env base scope = Inr baseValue"
  shows "(\<forall>t. getType baseValue = Inr t \<and> t \<noteq> TArray \<longrightarrow>
            execute env (Filter base query) scope = Inr NULL_VALUE)
       \<and> (\<forall>vs fin. getType baseValue = Inr TArray \<and> iterate baseValue = (vs, fin) \<longrightarrow>
            (\<exists>ys fin'. execute env (Filter base query) scope = Inr (StreamValue ys fin')
               \<and> subseq ys vs))
       \<and> (\<forall>vs fin. getType baseValue = Inr TArray \<and> iterate baseValue = (vs, fin)
              \<and> (\<forall>v\<in>set vs. decides env query scope v) \<longrightarrow>
            execute env (Filter base query) scope =
              Inr (StreamValue (filter (keeps env query scope) vs) fin))
       \<and> (\<forall>vs A. getType baseValue = Inr TArray \<and> iterate baseValue = (vs, None)
              \<and> get baseValue = Inr (JArr A)
              \<and> (\<forall>v\<in>set vs. decides env query scope v) \<longrightarrow>
            get (StreamValue (filter (keeps env query scope) vs) None) =
              Inr (JArr (map snd (filter (\<lambda>(v, a). keeps env query scope v) (zip vs A))))
          \<and> subseq (map snd (filter (\<lambda>(v, a). keeps env query scope v) (zip vs A))) A)"
proof (intro conjI allI impI)
  fix t assume "getType baseValue = Inr t \<and> t \<noteq> TArray"
  with assms show "execute env (Filter base query) scope = Inr NULL_VALUE" by simp
next
  fix vs fin assume h: "getType baseValue = Inr TArray \<and> iterate baseValue = (vs, fin)"
  obtain ys fin' where g:
    "filter_gen (\<lambda>v. execute env query (createNested scope v)) vs fin = (ys, fin')"
    by (cases "filter_gen (\<lambda>v. execute env query (createNested scope v)) vs fin")
  from filter_gen_subseq [OF g] have "subseq ys vs" .
  with assms h g
  show "\<exists>ys fin'. execute env (Filter base query) scope = Inr (StreamValue ys fin') \<and> subseq ys vs"
    by (simp add: new_StreamValue_def)
next
  fix vs fin
  assume "getType baseValue = Inr TArray \<and> iterate baseValue = (vs, fin)
    \<and> (\<forall>v\<in>set vs. decides env query scope v)"
  with assms show "execute env (Filter base query) scope =
      Inr (StreamValue (filter (keeps env query scope) vs) fin)"
    by (simp add: filter_gen_filter new_StreamValue_def)
next
  fix vs A
  assume h: "getType baseValue = Inr TArray \<and> iterate baseValue = (vs, None)
    \<and> get baseValue = Inr (JArr A) \<and> (\<forall>v\<in>set vs. decides env query scope v)"
  then have all: "get_all vs None = Inr A" using get_iterate by blast
  from get_all_filter [OF all]
  show "get (StreamValue (filter (keeps env query scope) vs) None) =
      Inr (JArr (map snd (filter (\<lambda>(v, a). keeps env query scope v) (zip vs A))))"
    by simp
next
  fix vs A
  assume h: "getType baseValue = Inr TArray \<and> iterate baseValue = (vs, None)
    \<and> get baseValue = Inr (JArr A) \<and> (\<forall>v\<in>set vs. decides env query scope v)"
  then have "get_all vs None = Inr A" using get_iterate by blast
  then have "length vs = length A" by (simp add: get_all_length)
  then show "subseq (map snd (filter (\<lambda>(v, a). keeps env query scope v) (zip vs A))) A"
    by (rule subseq_zip_filter)
qed

theorem Filter_subsequence_witness:
  "execute no_registries (Filter (Value (JNum 1)) (Identifier ''ok'')) (root_scope flagged_documents)
     = Inr NULL_VALUE
 \<and> execute no_registries (Filter Star (Identifier ''ok'')) (root_scope flagged_documents)
     = Inr (StreamValue
         [StaticValue (JObj [(''_id'', JStr ''a''), (''ok'', JBool True)]),
          StaticValue (JObj [(''_id'', JStr ''c''), (''ok'', JBool True)])] None)
 \<and> get (StreamValue
         [StaticValue (JObj [(''_id'', JStr ''a''), (''ok'', JBool True)]),
          StaticValue (JObj [(''_id'', JStr ''c''), (''ok'', JBool True)])] None)
     = Inr (JArr [JObj [(''_id'', JStr ''a''), (''ok'', JBool True)],
                  JObj [(''_id'', JStr ''c''), (''ok'', JBool True)]])
 \<and> subseq [JObj [(''_id'', JStr ''a''), (''ok'', JBool True)],
            JObj [(''_id'', JStr ''c''), (''ok'', JBool True)]] flagged_documents"
proof -
  have one: "execute no_registries (Value (JNum 1)) (root_scope flagged_documents)
      = Inr (StaticValue (JNum 1))"
    and star: "execute no_registries Star (root_scope flagged_documents)
      = Inr (StaticValue (JArr flagged_documents))"
    by (simp_all add: createSink_def root_scope_def)
  have keeps: "keeps no_registries (Identifier ''ok'') sc
      (StaticValue (JObj props)) = (map_of props ''ok'' = Some (JBool True))" for props sc
    by (simp add: keeps_def createNested_def get_prop_def NULL_VALUE_def split: option.splits)
  have decides: "decides no_registries (Identifier ''ok'') sc
      (StaticValue (JObj props))" for props sc
    by (simp add: decides_def createNested_def get_prop_def NULL_VALUE_def split: option.splits)
  show ?thesis
    using Filter_subsequence [OF one, of "Identifier ''ok''"]
      Filter_subsequence [OF star, of "Identifier ''ok''"]
    by (simp add: keeps decides flagged_documents_def del: execute.simps)
qed

subsection \<open>Proper outcomes\<close>












lemma proper_new_StreamValue:
  "g = (ys, fin) \<Longrightarrow> list_all proper ys \<and> proper_end fin \<Longrightarrow> proper (new_StreamValue g)"
  by (simp add: new_StreamValue_def)

lemma proper_constants [simp]: "proper NULL_VALUE" "proper TRUE_VALUE" "proper FALSE_VALUE"
  by (simp_all add: NULL_VALUE_def TRUE_VALUE_def FALSE_VALUE_def)















subsection \<open>The null marker of Slice\<close>



subsection \<open>Fatal conditions\<close>




subsection \<open>The splat of Object\<close>

text \<open>
  C1. The claim: a splat merges the own properties of the current value into the
  result. The code passes the Value object itself to \<^verbatim>\<open>Object.assign\<close>, not its data: the
  query \<^verbatim>\<open>*{...}\<close> over the one document \<^verbatim>\<open>{a: 1}\<close> gives \<^verbatim>\<open>{data: {a: 1}}\<close>.
\<close>

theorem ObjectSplat_copies_wrapper:
  "evaluate env (Projection Star (Object [ObjectSplat]))
     \<lparr>opt_documents = Some (JArr [JObj [(''a'', JNum 1)]]), opt_params = None\<rparr>
     = Inr (StreamValue [StaticValue (JObj [(''data'', JObj [(''a'', JNum 1)])])] None)"
  by (simp add: evaluate_def createSink_def createNested_def new_StreamValue_def)

end
